theory Spec2Isabelle
  imports Main "HOL-Library.Word"
begin

section \<open>Go's regexp package, as far as the dashboard pattern needs it\<close>

text \<open>
  Go strings are byte sequences, here \<^typ>\<open>string\<close>. The pattern of
  \<open>extractURLInfo\<close> only names the ASCII bytes \<open>/\<close>, \<open>d\<close> and (through \<open>.\<close>) the
  newline; none of them occurs inside a multi-byte UTF-8 sequence, so matching bytes and
  matching runes agree for it.

  The syntax covers what the pattern uses: a one-character class, the greedy star of a
  class, concatenation and a numbered capture group.
\<close>

datatype cls =
    Chr char      \<comment> \<open>a literal character\<close>
  | Dot           \<comment> \<open>\<open>.\<close>: any character but newline (no \<open>s\<close> flag)\<close>
  | AnyBut char   \<comment> \<open>\<open>[^c]\<close>: any character but \<open>c\<close>, newline included\<close>

datatype regex =
    Sym cls
  | Star cls      \<comment> \<open>\<open>c*\<close>, greedy\<close>
  | Cat regex regex
  | Group nat regex

definition newline :: char where
  "newline = CHR 0x0A"

fun cls_ok :: "cls \<Rightarrow> char \<Rightarrow> bool" where
  "cls_ok (Chr c) x = (x = c)"
| "cls_ok Dot x = (x \<noteq> newline)"
| "cls_ok (AnyBut c) x = (x \<noteq> c)"

type_synonym caps = "(nat \<times> string) list"

text \<open>
  \<open>run r (s, cs)\<close> lists every way \<open>r\<close> matches a prefix of \<open>s\<close>, as the remaining
  input and the groups captured so far, in the order a backtracking matcher tries them:
  a greedy star offers the longest repetition first. Go's regexp returns the match such a
  search finds first (leftmost-first).
\<close>

fun run :: "regex \<Rightarrow> string \<times> caps \<Rightarrow> (string \<times> caps) list" where
  "run (Sym c) ([], cs) = []"
| "run (Sym c) (x # xs, cs) = (if cls_ok c x then [(xs, cs)] else [])"
| "run (Star c) ([], cs) = [([], cs)]"
| "run (Star c) (x # xs, cs) =
     (if cls_ok c x then run (Star c) (xs, cs) else []) @ [(x # xs, cs)]"
| "run (Cat a b) st = concat (map (run b) (run a st))"
| "run (Group n r) (s, cs) =
     map (\<lambda>(rest, cs'). (rest, (n, take (length s - length rest) s) # cs')) (run r (s, cs))"

fun NumSubexp :: "regex \<Rightarrow> nat" where
  "NumSubexp (Sym c) = 0"
| "NumSubexp (Star c) = 0"
| "NumSubexp (Cat a b) = NumSubexp a + NumSubexp b"
| "NumSubexp (Group n r) = Suc (NumSubexp r)"

definition match_at :: "regex \<Rightarrow> string \<Rightarrow> (string \<times> caps) option" where
  "match_at r s =
     (case run r (s, []) of
        [] \<Rightarrow> None
      | (rest, cs) # _ \<Rightarrow> Some (take (length s - length rest) s, cs))"

text \<open>The leftmost match: the first start position from which the pattern matches.\<close>

fun leftmost :: "regex \<Rightarrow> string \<Rightarrow> (string \<times> caps) option" where
  "leftmost r [] = match_at r []"
| "leftmost r (x # xs) =
     (case match_at r (x # xs) of Some m \<Rightarrow> Some m | None \<Rightarrow> leftmost r xs)"

text \<open>
  \<open>FindStringSubmatch\<close>: nil (the empty list) when nothing matches, otherwise the matched
  text followed by the text of each group, a group that took no part being empty.
\<close>

definition FindStringSubmatch :: "regex \<Rightarrow> string \<Rightarrow> string list" where
  "FindStringSubmatch r s =
     (case leftmost r s of
        None \<Rightarrow> []
      | Some (whole, cs) \<Rightarrow>
          whole # map (\<lambda>i. case map_of cs i of None \<Rightarrow> [] | Some g \<Rightarrow> g)
                      [1 ..< Suc (NumSubexp r)])"

section \<open>The link extractor\<close>

text \<open>The pattern \<^verbatim>\<open>.*(\/d\/([^\/]*)\/.*)\<close>.\<close>

definition dashboard_re :: regex where
  "dashboard_re =
     Cat (Star Dot)
       (Group 1
         (Cat (Sym (Chr CHR ''/''))
           (Cat (Sym (Chr CHR ''d''))
             (Cat (Sym (Chr CHR ''/''))
               (Cat (Group 2 (Star (AnyBut CHR ''/'')))
                 (Cat (Sym (Chr CHR ''/'')) (Star Dot)))))))"

definition extractURLInfo :: "string \<Rightarrow> string \<times> string" where
  "extractURLInfo dashboardURL =
     (let res = FindStringSubmatch dashboard_re dashboardURL
      in if length res \<noteq> 3 then ('''', '''') else (res ! 1, res ! 2))"

section \<open>Data model\<close>

text \<open>
  The structs of the Slack handlers, one record each, fields named \<open>Struct_Field\<close>.
  A Go \<open>error\<close> is modelled by its message, a pointer field by an option, a slice by a
  list (nil is the empty list), \<open>int64\<close> by a 64-bit word.
\<close>

type_synonym err = string

record Link =
  Link_URL :: string
  Link_Domain :: string

record Event =
  Event_Type :: string
  Event_User :: string
  Event_Channel :: string
  Event_MessageTS :: string
  Event_Links :: "Link list"
  Event_Source :: string
  Event_UnfurlID :: string
  Event_IsBotUserMember :: bool
  Event_EventTS :: string

text \<open>\<open>Authorization\<close> is declared elsewhere in the package; nothing here reads it.\<close>

typedecl Authorization

record EventPayload =
  EventPayload_Token :: string
  EventPayload_TeamID :: string
  EventPayload_APIAppID :: string
  EventPayload_Event :: Event
  EventPayload_Type :: string
  EventPayload_EventID :: string
  EventPayload_EventTime :: "64 word"
  EventPayload_Authorizations :: "Authorization list"
  EventPayload_IsExtSharedChannel :: bool
  EventPayload_EventContext :: string
  EventPayload_Challenge :: string

record EventChallengeAck =
  EventChallengeAck_Challenge :: string

record Text =
  Text_Type :: string
  Text_Text :: string

record ImageAccessory =
  ImageAccessory_Type :: string
  ImageAccessory_Title :: "Text option"
  ImageAccessory_ImageURL :: string
  ImageAccessory_AltText :: string

record Element =
  Element_Type :: string
  Element_Text :: "Text option"
  Element_Style :: string
  Element_Value :: string
  Element_URL :: string

record Block =
  Block_Type :: string
  Block_Text :: "Text option"
  Block_Accessory :: "ImageAccessory option"
  Block_ImageURL :: string
  Block_Title :: "Text option"
  Block_AltText :: string
  Block_Elements :: "Element list"

record Unfurl =
  Unfurl_Blocks :: "Block list"

type_synonym Unfurls = "string \<rightharpoonup> Unfurl"

record UnfurlEventPayload =
  UnfurlEventPayload_Channel :: string
  UnfurlEventPayload_TS :: string
  UnfurlEventPayload_Unfurls :: Unfurls

record ShareRequest =
  ShareRequest_ChannelIds :: "string list"
  ShareRequest_Message :: string
  ShareRequest_ImagePreviewUrl :: string
  ShareRequest_PanelId :: string
  ShareRequest_DashboardPath :: string

record PostMessageRequest =
  PostMessageRequest_Channel :: string
  PostMessageRequest_Blocks :: "Block list"

text \<open>The zero values of the composite literals: every field left out is empty.\<close>

definition Element_zero :: Element where
  "Element_zero = \<lparr>Element_Type = [], Element_Text = None, Element_Style = [],
     Element_Value = [], Element_URL = []\<rparr>"

definition Block_zero :: Block where
  "Block_zero = \<lparr>Block_Type = [], Block_Text = None, Block_Accessory = None,
     Block_ImageURL = [], Block_Title = None, Block_AltText = [], Block_Elements = []\<rparr>"

subsection \<open>Collaborators\<close>

text \<open>
  Modelled from the spec: the types of the dashboard and rendering collaborators, whose
  declarations are not under \<open>src/\<close>. The dashboard lookup returns a title or fails; a
  render returns the path of the image file or fails. The rendering options are the
  fields \<open>renderDashboard\<close> sets: a viewport, a timeout, a theme, a device scale factor
  (a float in the source, only ever 1 here), the role and the organization identifier.
\<close>

record Dashboard =
  Dashboard_Title :: string

record RenderResult =
  RenderResult_FilePath :: string

datatype RoleType = RoleViewer | RoleEditor | RoleAdmin

datatype Theme = ThemeLight | ThemeDark

record RenderOpts =
  Opts_Timeout :: int                \<comment> \<open>a \<open>time.Duration\<close>, in nanoseconds\<close>
  Opts_OrgID :: "64 word"
  Opts_OrgRole :: RoleType
  Opts_Width :: int
  Opts_Height :: int
  Opts_Path :: string
  Opts_ConcurrentLimit :: int
  Opts_DeviceScaleFactor :: int
  Opts_Theme :: Theme

text \<open>
  Modelled from the spec: package \<open>response\<close>, which is not under \<open>src/\<close>. A response
  is the call that built it: \<open>response.Error(status, message, err)\<close>,
  \<open>response.JSON(status, body)\<close> or \<open>response.Empty(status)\<close>. The bodies are the two
  values the handlers below pass: \<open>nil\<close> and a challenge acknowledgement.
\<close>

datatype body = NilBody | AckBody EventChallengeAck

datatype Response =
    response_Error nat string err
  | response_JSON nat body
  | response_Empty nat

text \<open>
  Package \<open>net/http\<close>: a request under construction, and a response as far as it is
  read: what \<open>io.ReadAll(res.Body)\<close> returns and what \<open>res.Body.Close()\<close> returns.
\<close>

record Request =
  Request_Method :: string
  Request_URL :: string
  Request_Header :: "(string \<times> string) list"
  Request_Body :: string

record http_Response =
  Body_ReadAll :: "string \<times> err option"
  Body_Close :: "err option"

definition Header_Add :: "string \<Rightarrow> string \<Rightarrow> Request \<Rightarrow> Request" where
  "Header_Add k v req = req\<lparr>Request_Header := Request_Header req @ [(k, v)]\<rparr>"

record Cfg =
  Cfg_SlackToken :: string
  Cfg_Protocol :: string
  Cfg_HTTPAddr :: string
  Cfg_HTTPPort :: string
  Cfg_RendererCallbackUrl :: string
  Cfg_ServeFromSubPath :: bool
  Cfg_AppSubURL :: string
  Cfg_RendererConcurrentRequestLimit :: int

text \<open>
  The server, over a state \<open>'w\<close> of everything outside the handlers (the dashboard store,
  the renderer, the network). Its configuration and its two services are the fields of
  \<open>HTTPServer\<close> the handlers use. The other fields are parameters of the model: the
  scheme constants of package \<open>setting\<close>, and the library calls whose outcome the
  handlers branch on (\<open>web.Bind\<close>, \<open>json.Marshal\<close>, whether \<open>http.NewRequest\<close> fails,
  \<open>http.DefaultClient.Do\<close>). A call that returns \<open>(value, error)\<close> and is checked before
  its value is read is a sum, \<open>Inl\<close> the error. \<open>Do\<close> keeps Go's pair, because
  \<open>ShareToSlack\<close> reads the response without looking at the error.
\<close>

record 'w HTTPServer =
  Cfg :: Cfg
  DashboardService_GetDashboard :: "'w \<Rightarrow> string \<Rightarrow> (err + Dashboard) \<times> 'w"
  RenderService_Render :: "'w \<Rightarrow> RenderOpts \<Rightarrow> (err + RenderResult) \<times> 'w"
  setting_HTTPScheme :: string
  setting_HTTP2Scheme :: string
  setting_HTTPSScheme :: string
  web_Bind_ShareRequest :: "string \<Rightarrow> err + ShareRequest"
  web_Bind_EventPayload :: "string \<Rightarrow> err + EventPayload"
  json_Marshal_PostMessageRequest :: "PostMessageRequest \<Rightarrow> err + string"
  json_Marshal_UnfurlEventPayload :: "UnfurlEventPayload \<Rightarrow> err + string"
  http_NewRequest_error :: "string \<Rightarrow> string \<Rightarrow> err option"
  http_DefaultClient_Do :: "'w \<Rightarrow> Request \<Rightarrow> (http_Response option \<times> err option) \<times> 'w"

text \<open>The inbound request: the \<open>:uid\<close> path parameter and the raw body.\<close>

record ReqContext =
  Params_uid :: string
  Req_Body :: string

subsection \<open>Effects and outcomes\<close>

text \<open>
  A handler runs on a state: the outside world, the requests handed to
  \<open>http.DefaultClient.Do\<close> so far (in order), and the lines logged so far. It either
  returns or panics.
\<close>

datatype level = LvlInfo | LvlError

record 'w state =
  world :: 'w
  outbound :: "Request list"
  logged :: "(level \<times> string \<times> string list) list"

datatype panic =
    IndexOutOfRange nat nat     \<comment> \<open>index, length\<close>
  | NilPointerDereference

datatype 'a outcome = Done 'a | Panics panic

definition log_line :: "level \<Rightarrow> string \<Rightarrow> string list \<Rightarrow> 'w state \<Rightarrow> 'w state" where
  "log_line lvl msg kv s = s\<lparr>logged := logged s @ [(lvl, msg, kv)]\<rparr>"

text \<open>
  \<open>http.NewRequest\<close> returns \<open>(nil, err)\<close> when it fails and otherwise a request with the
  given method, URL and body and no header.
\<close>

definition http_NewRequest ::
  "'w HTTPServer \<Rightarrow> string \<Rightarrow> string \<Rightarrow> string \<Rightarrow> Request option \<times> err option" where
  "http_NewRequest hs method url b =
     (case http_NewRequest_error hs method url of
        Some e \<Rightarrow> (None, Some e)
      | None \<Rightarrow> (Some \<lparr>Request_Method = method, Request_URL = url, Request_Header = [],
                       Request_Body = b\<rparr>, None))"

definition client_Do ::
  "'w HTTPServer \<Rightarrow> Request \<Rightarrow> 'w state \<Rightarrow> (http_Response option \<times> err option) \<times> 'w state" where
  "client_Do hs req s =
     (let (r, w') = http_DefaultClient_Do hs (world s) req
      in (r, s\<lparr>world := w', outbound := outbound s @ [req]\<rparr>))"

definition GetDashboard ::
  "'w HTTPServer \<Rightarrow> string \<Rightarrow> 'w state \<Rightarrow> (err + Dashboard) \<times> 'w state" where
  "GetDashboard hs uid s =
     (let (r, w') = DashboardService_GetDashboard hs (world s) uid in (r, s\<lparr>world := w'\<rparr>))"

text \<open>
  \<open>filepath.Base\<close> (with \<open>/\<close> as the separator): the last element of the path, after
  trailing slashes are dropped; \<open>.\<close> for the empty path, \<open>/\<close> for a path of slashes.
\<close>

definition filepath_Base :: "string \<Rightarrow> string" where
  "filepath_Base path =
     (if path = [] then ''.''
      else let stripped = rev (dropWhile (\<lambda>c. c = CHR ''/'') (rev path));
               last_elem = rev (takeWhile (\<lambda>c. c \<noteq> CHR ''/'') (rev stripped))
           in if last_elem = [] then ''/'' else last_elem)"

section \<open>The share handler\<close>

text \<open>
  The \<open>switch protocol\<close> and the choice of the domain, which \<open>ShareToSlack\<close> and
  \<open>getImageURL\<close> both spell out.
\<close>

definition protocol_name :: "'w HTTPServer \<Rightarrow> string" where
  "protocol_name hs =
     (let protocol = Cfg_Protocol (Cfg hs)
      in if protocol = setting_HTTPScheme hs then ''http''
         else if protocol = setting_HTTP2Scheme hs \<or> protocol = setting_HTTPSScheme hs
         then ''https''
         else protocol)"

definition domain_name :: "'w HTTPServer \<Rightarrow> string" where
  "domain_name hs =
     (if Cfg_HTTPAddr (Cfg hs) \<noteq> ''0.0.0.0'' then Cfg_HTTPAddr (Cfg hs) else ''localhost'')"

definition share_dashboardLink :: "'w HTTPServer \<Rightarrow> ShareRequest \<Rightarrow> string" where
  "share_dashboardLink hs shareRequest =
     protocol_name hs @ ''://'' @ domain_name hs @ '':'' @ Cfg_HTTPPort (Cfg hs)
       @ ShareRequest_DashboardPath shareRequest"

definition share_blocks :: "string \<Rightarrow> Dashboard \<Rightarrow> ShareRequest \<Rightarrow> Block list" where
  "share_blocks dashboardLink dashboard shareRequest =
     [Block_zero\<lparr>Block_Type := ''section'',
        Block_Text := Some \<lparr>Text_Type = ''mrkdwn'',
          Text_Text = ''<'' @ dashboardLink @ ''|*'' @ Dashboard_Title dashboard @ ''*>''\<rparr>\<rparr>,
      Block_zero\<lparr>Block_Type := ''section'',
        Block_Text := Some \<lparr>Text_Type = ''plain_text'',
          Text_Text = ShareRequest_Message shareRequest\<rparr>\<rparr>,
      Block_zero\<lparr>Block_Type := ''image'',
        Block_Title := Some \<lparr>Text_Type = ''plain_text'', Text_Text = ''Dashboard preview''\<rparr>,
        Block_ImageURL := ShareRequest_ImagePreviewUrl shareRequest,
        Block_AltText := ''dashboard preview''\<rparr>,
      Block_zero\<lparr>Block_Type := ''actions'',
        Block_Elements :=
          [Element_zero\<lparr>Element_Type := ''button'',
             Element_Text := Some \<lparr>Text_Type = ''plain_text'', Text_Text = ''View in Grafana''\<rparr>,
             Element_Style := ''primary'',
             Element_Value := ''View in Grafana'',
             Element_URL := dashboardLink\<rparr>]\<rparr>]"

text \<open>The request of one iteration, once its headers are added.\<close>

definition postMessage_request :: "'w HTTPServer \<Rightarrow> string \<Rightarrow> Request" where
  "postMessage_request hs jsonBody =
     Header_Add ''Authorization'' (''Bearer '' @ Cfg_SlackToken (Cfg hs))
       (Header_Add ''Content-Type'' ''application/json; charset=utf-8''
          \<lparr>Request_Method = ''POST'', Request_URL = ''https://slack.com/api/chat.postMessage'',
            Request_Header = [], Request_Body = jsonBody\<rparr>)"

text \<open>
  One iteration of the loop over \<open>shareRequest.ChannelIds\<close>. \<open>Done None\<close>: the loop goes on;
  \<open>Done (Some r)\<close>: the handler returns \<open>r\<close>. The headers are added to \<open>req\<close> before its
  error is looked at, and \<open>res.Body\<close> is read whatever \<open>Do\<close> returned: on nil either
  panics. The three \<open>fmt.Errorf\<close> calls build a value nobody reads.
\<close>

definition post_to_channel ::
  "'w HTTPServer \<Rightarrow> Block list \<Rightarrow> string \<Rightarrow> 'w state \<Rightarrow> Response option outcome \<times> 'w state" where
  "post_to_channel hs blocks channelId s =
     (let postMessageRequest =
            \<lparr>PostMessageRequest_Channel = channelId, PostMessageRequest_Blocks = blocks\<rparr>
      in case json_Marshal_PostMessageRequest hs postMessageRequest of
           Inl err \<Rightarrow> (Done (Some (response_Error 400 ''error parsing body'' err)), s)
         | Inr jsonBody \<Rightarrow>
             (case http_NewRequest hs ''POST'' ''https://slack.com/api/chat.postMessage'' jsonBody of
                (None, err) \<Rightarrow> (Panics NilPointerDereference, s)
              | (Some req0, err) \<Rightarrow>
                  (let req = Header_Add ''Authorization'' (''Bearer '' @ Cfg_SlackToken (Cfg hs))
                               (Header_Add ''Content-Type'' ''application/json; charset=utf-8'' req0)
                   in case client_Do hs req s of
                        ((None, err), s1) \<Rightarrow> (Panics NilPointerDereference, s1)
                      | ((Some res, err), s1) \<Rightarrow>
                          (let (resBody, err) = Body_ReadAll res
                           in (Done None,
                               log_line LvlInfo ''successfully sent unfurl event payload''
                                 [''body'', resBody] s1)))))"

fun share_loop ::
  "'w HTTPServer \<Rightarrow> Block list \<Rightarrow> string list \<Rightarrow> 'w state \<Rightarrow> Response option outcome \<times> 'w state" where
  "share_loop hs blocks [] s = (Done None, s)"
| "share_loop hs blocks (channelId # rest) s =
     (case post_to_channel hs blocks channelId s of
        (Done None, s') \<Rightarrow> share_loop hs blocks rest s'
      | stop \<Rightarrow> stop)"

definition ShareToSlack ::
  "'w HTTPServer \<Rightarrow> ReqContext \<Rightarrow> 'w state \<Rightarrow> Response outcome \<times> 'w state" where
  "ShareToSlack hs c s =
     (let dashboardUid = Params_uid c
      in case GetDashboard hs dashboardUid s of
           (Inl err, s1) \<Rightarrow>
             (Done (response_Error 400 ''error parsing body'' err),
              log_line LvlError ''fail to get dashboard''
                [''err'', err, ''dashboard UID'', dashboardUid] s1)
         | (Inr dashboard, s1) \<Rightarrow>
             (case web_Bind_ShareRequest hs (Req_Body c) of
                Inl err \<Rightarrow> (Done (response_Error 400 ''error parsing body'' err), s1)
              | Inr shareRequest \<Rightarrow>
                  (let dashboardLink = share_dashboardLink hs shareRequest;
                       blocks = share_blocks dashboardLink dashboard shareRequest
                   in case share_loop hs blocks (ShareRequest_ChannelIds shareRequest) s1 of
                        (Done None, s2) \<Rightarrow> (Done (response_JSON 200 NilBody), s2)
                      | (Done (Some r), s2) \<Rightarrow> (Done r, s2)
                      | (Panics p, s2) \<Rightarrow> (Panics p, s2))))"

section \<open>The unfurl path\<close>

definition getImageURL :: "'w HTTPServer \<Rightarrow> string \<Rightarrow> string" where
  "getImageURL hs imageName =
     (if Cfg_RendererCallbackUrl (Cfg hs) \<noteq> []
      then Cfg_RendererCallbackUrl (Cfg hs) @ ''public/img/attachments'' @ ''/'' @ imageName
      else let subPath = (if Cfg_ServeFromSubPath (Cfg hs) then Cfg_AppSubURL (Cfg hs) else [])
           in protocol_name hs @ ''://'' @ domain_name hs @ '':'' @ Cfg_HTTPPort (Cfg hs)
                @ subPath @ ''/'' @ ''public/img/attachments'' @ ''/'' @ imageName)"

definition renderDashboard ::
  "'w HTTPServer \<Rightarrow> string \<Rightarrow> 'w state \<Rightarrow> (err + string) \<times> 'w state" where
  "renderDashboard hs renderPath s =
     (let opts = \<lparr>Opts_Timeout = 60 * 1000000000, Opts_OrgID = 1, Opts_OrgRole = RoleAdmin,
                   Opts_Width = 1600, Opts_Height = 800, Opts_Path = renderPath,
                   Opts_ConcurrentLimit = Cfg_RendererConcurrentRequestLimit (Cfg hs),
                   Opts_DeviceScaleFactor = 1, Opts_Theme = ThemeDark\<rparr>;
          (r, w') = RenderService_Render hs (world s) opts
      in (case r of Inl err \<Rightarrow> Inl err | Inr result \<Rightarrow> Inr (RenderResult_FilePath result),
          s\<lparr>world := w'\<rparr>))"

definition unfurl_blocks :: "string \<Rightarrow> string \<Rightarrow> Link \<Rightarrow> Block list" where
  "unfurl_blocks dashboardTitle imageURL link =
     [Block_zero\<lparr>Block_Type := ''header'',
        Block_Text := Some \<lparr>Text_Type = ''plain_text'', Text_Text = dashboardTitle\<rparr>\<rparr>,
      Block_zero\<lparr>Block_Type := ''section'',
        Block_Text := Some \<lparr>Text_Type = ''plain_text'',
          Text_Text = ''Here is the dashboard that I wanted to show you''\<rparr>\<rparr>,
      Block_zero\<lparr>Block_Type := ''image'',
        Block_Title := Some \<lparr>Text_Type = ''plain_text'', Text_Text = ''Dashboard preview''\<rparr>,
        Block_ImageURL := imageURL,
        Block_AltText := ''dashboard preview''\<rparr>,
      Block_zero\<lparr>Block_Type := ''actions'',
        Block_Elements :=
          [Element_zero\<lparr>Element_Type := ''button'',
             Element_Text := Some \<lparr>Text_Type = ''plain_text'', Text_Text = ''View Dashboard''\<rparr>,
             Element_Style := ''primary'',
             Element_Value := Link_URL link,
             Element_URL := Link_URL link\<rparr>]\<rparr>]"

text \<open>The payload \<open>sendUnfurlEvent\<close> builds before it marshals it: the loop over the links.\<close>

definition unfurl_payload ::
  "'w HTTPServer \<Rightarrow> EventPayload \<Rightarrow> string \<Rightarrow> string \<Rightarrow> UnfurlEventPayload" where
  "unfurl_payload hs linkEvent imagePath dashboardTitle =
     (let imageFileName = filepath_Base imagePath;
          imageURL = getImageURL hs imageFileName
      in \<lparr>UnfurlEventPayload_Channel = Event_Channel (EventPayload_Event linkEvent),
          UnfurlEventPayload_TS = Event_MessageTS (EventPayload_Event linkEvent),
          UnfurlEventPayload_Unfurls =
            foldl (\<lambda>unfurls link.
                     unfurls(Link_URL link \<mapsto>
                       \<lparr>Unfurl_Blocks = unfurl_blocks dashboardTitle imageURL link\<rparr>))
                  Map.empty (Event_Links (EventPayload_Event linkEvent))\<rparr>)"

definition unfurl_request :: "'w HTTPServer \<Rightarrow> string \<Rightarrow> Request" where
  "unfurl_request hs b =
     Header_Add ''Authorization'' (''Bearer '' @ Cfg_SlackToken (Cfg hs))
       (Header_Add ''Content-Type'' ''application/json''
          \<lparr>Request_Method = ''POST'', Request_URL = ''https://slack.com/api/chat.unfurl'',
            Request_Header = [], Request_Body = b\<rparr>)"

text \<open>The deferred \<open>res.Body.Close()\<close>, which logs its error.\<close>

definition close_body :: "http_Response \<Rightarrow> 'w state \<Rightarrow> 'w state" where
  "close_body res s =
     (case Body_Close res of
        None \<Rightarrow> s
      | Some err \<Rightarrow> log_line LvlError ''failed to close response body'' [''err'', err] s)"

text \<open>
  \<open>sendUnfurlEvent\<close> returns an error or nil. It also adds the headers before it looks at
  the error of \<open>http.NewRequest\<close>; the error of \<open>Do\<close> it checks before it reads the
  response.
\<close>

definition sendUnfurlEvent ::
  "'w HTTPServer \<Rightarrow> EventPayload \<Rightarrow> string \<Rightarrow> string \<Rightarrow> 'w state \<Rightarrow> err option outcome \<times> 'w state"
  where
  "sendUnfurlEvent hs linkEvent imagePath dashboardTitle s =
     (let eventPayload = unfurl_payload hs linkEvent imagePath dashboardTitle
      in case json_Marshal_UnfurlEventPayload hs eventPayload of
           Inl err \<Rightarrow> (Done (Some (''client: could not create body: '' @ err)), s)
         | Inr b \<Rightarrow>
             (let s1 = log_line LvlInfo ''Posting to slack api'' [''eventPayload'', b] s
              in case http_NewRequest hs ''POST'' ''https://slack.com/api/chat.unfurl'' b of
                   (None, err) \<Rightarrow> (Panics NilPointerDereference, s1)
                 | (Some req0, Some err) \<Rightarrow>
                     (Done (Some (''client: could not create request: '' @ err)), s1)
                 | (Some req0, None) \<Rightarrow>
                     (let req = Header_Add ''Authorization''
                                  (''Bearer '' @ Cfg_SlackToken (Cfg hs))
                                  (Header_Add ''Content-Type'' ''application/json'' req0)
                      in case client_Do hs req s1 of
                           ((res, Some err), s2) \<Rightarrow>
                             (Done (Some (''client: error making http request: '' @ err)), s2)
                         | ((None, None), s2) \<Rightarrow> (Panics NilPointerDereference, s2)
                         | ((Some res, None), s2) \<Rightarrow>
                             (case Body_ReadAll res of
                                (resBody, Some err) \<Rightarrow>
                                  (Done (Some (''client: could not read response body: '' @ err)),
                                   close_body res s2)
                              | (resBody, None) \<Rightarrow>
                                  (Done None,
                                   close_body res
                                     (log_line LvlInfo ''successfully sent unfurl event payload''
                                        [''body'', resBody] s2))))))"

text \<open>
  \<open>handleLinkSharedEvent\<close> returns nothing. \<open>event.Event.Links[0]\<close> panics on an empty
  list.
\<close>

definition handleLinkSharedEvent ::
  "'w HTTPServer \<Rightarrow> EventPayload \<Rightarrow> 'w state \<Rightarrow> unit outcome \<times> 'w state" where
  "handleLinkSharedEvent hs event s =
     (case Event_Links (EventPayload_Event event) of
        [] \<Rightarrow> (Panics (IndexOutOfRange 0 0), s)
      | link0 # _ \<Rightarrow>
          (let (renderPath, dashboardUID) = extractURLInfo (Link_URL link0)
           in if renderPath = []
              then (Done (), log_line LvlError ''fail to extract render path from link'' [] s)
              else case GetDashboard hs dashboardUID s of
                     (Inl err, s1) \<Rightarrow>
                       (Done (), log_line LvlError ''fail to get dashboard''
                                   [''err'', err, ''dashboard UID'', dashboardUID] s1)
                   | (Inr dashboard, s1) \<Rightarrow>
                       (case renderDashboard hs renderPath s1 of
                          (Inl err, s2) \<Rightarrow>
                            (Done (), log_line LvlError
                                        ''fail to render dashboard for Slack preview''
                                        [''err'', err] s2)
                        | (Inr imagePath, s2) \<Rightarrow>
                            (case sendUnfurlEvent hs event imagePath (Dashboard_Title dashboard) s2 of
                               (Panics p, s3) \<Rightarrow> (Panics p, s3)
                             | (Done None, s3) \<Rightarrow> (Done (), s3)
                             | (Done (Some err), s3) \<Rightarrow>
                                 (Done (), log_line LvlError
                                             ''fail to send unfurl event to Slack''
                                             [''err'', err] s3)))))"

section \<open>The event dispatcher\<close>

text \<open>
  \<open>defer hs.handleLinkSharedEvent(eventPayload)\<close> runs the orchestrator when
  \<open>AcknowledgeSlackEvent\<close> returns, before its caller gets the response: if the deferred
  call panics, the handler panics and the response is lost.
\<close>

definition AcknowledgeSlackEvent ::
  "'w HTTPServer \<Rightarrow> ReqContext \<Rightarrow> 'w state \<Rightarrow> Response outcome \<times> 'w state" where
  "AcknowledgeSlackEvent hs c s =
     (case web_Bind_EventPayload hs (Req_Body c) of
        Inl err \<Rightarrow> (Done (response_Error 400 ''error parsing body'' err), s)
      | Inr eventPayload \<Rightarrow>
          if EventPayload_Type eventPayload = ''url_verification''
          then (Done (response_JSON 200
                  (AckBody \<lparr>EventChallengeAck_Challenge = EventPayload_Challenge eventPayload\<rparr>)), s)
          else if EventPayload_Type eventPayload = ''event_callback''
                  \<and> Event_Type (EventPayload_Event eventPayload) = ''link_shared''
                  \<and> Event_Source (EventPayload_Event eventPayload) = ''conversations_history''
          then (case handleLinkSharedEvent hs eventPayload s of
                  (Done u, s') \<Rightarrow> (Done (response_Empty 200), s')
                | (Panics p, s') \<Rightarrow> (Panics p, s'))
          else (Done (response_Error 400 ''not handling this event type''
                        ''not handling this event type''), s))"

section \<open>Vocabulary of the properties\<close>

text \<open>
  A dashboard path segment \<open>/d/<uid>/<slug>\<close> starts the string: \<open>/d/\<close>, then some
  characters none of which is a slash, then a slash. A string contains such a segment
  when one starts at some position of it.
\<close>

fun dashboard_segment_at :: "string \<Rightarrow> bool" where
  "dashboard_segment_at (a # b # c # t) =
     (a = CHR ''/'' \<and> b = CHR ''d'' \<and> c = CHR ''/'' \<and> CHR ''/'' \<in> set t)"
| "dashboard_segment_at _ = False"

fun contains_dashboard_segment :: "string \<Rightarrow> bool" where
  "contains_dashboard_segment [] = False"
| "contains_dashboard_segment (x # xs) =
     (dashboard_segment_at (x # xs) \<or> contains_dashboard_segment xs)"

text \<open>Two parts of the pattern, named for the proofs.\<close>

definition uid_tail :: regex where
  "uid_tail = Cat (Group 2 (Star (AnyBut CHR ''/''))) (Cat (Sym (Chr CHR ''/'')) (Star Dot))"

definition segment_re :: regex where
  "segment_re =
     Group 1 (Cat (Sym (Chr CHR ''/'')) (Cat (Sym (Chr CHR ''d''))
       (Cat (Sym (Chr CHR ''/'')) uid_tail)))"

text \<open>
  The request an iteration of the share loop hands to the HTTP client for a channel: its
  body is what \<open>json.Marshal\<close> returned for that channel and the blocks.
\<close>

definition channel_request :: "'w HTTPServer \<Rightarrow> Block list \<Rightarrow> string \<Rightarrow> Request" where
  "channel_request hs blocks channelId =
     postMessage_request hs
       (projr (json_Marshal_PostMessageRequest hs
          \<lparr>PostMessageRequest_Channel = channelId, PostMessageRequest_Blocks = blocks\<rparr>))"

subsection \<open>Examples\<close>

definition example_Cfg :: Cfg where
  "example_Cfg = \<lparr>Cfg_SlackToken = ''xoxb-1'', Cfg_Protocol = ''http'',
     Cfg_HTTPAddr = ''0.0.0.0'', Cfg_HTTPPort = ''3000'', Cfg_RendererCallbackUrl = [],
     Cfg_ServeFromSubPath = False, Cfg_AppSubURL = [],
     Cfg_RendererConcurrentRequestLimit = 30\<rparr>"

definition example_share :: ShareRequest where
  "example_share = \<lparr>ShareRequest_ChannelIds = [''C1'', ''C2'', ''C3''],
     ShareRequest_Message = ''look'', ShareRequest_ImagePreviewUrl = ''http://img/p.png'',
     ShareRequest_PanelId = [], ShareRequest_DashboardPath = ''/d/abc123/latency''\<rparr>"

definition example_event :: "Link list \<Rightarrow> Event" where
  "example_event links = \<lparr>Event_Type = ''link_shared'', Event_User = ''U1'',
     Event_Channel = ''C1'', Event_MessageTS = ''1700000000.000100'', Event_Links = links,
     Event_Source = ''conversations_history'', Event_UnfurlID = [],
     Event_IsBotUserMember = True, Event_EventTS = ''1700000000.000200''\<rparr>"

definition example_payload :: "string \<Rightarrow> string \<Rightarrow> Link list \<Rightarrow> EventPayload" where
  "example_payload type challenge links = \<lparr>EventPayload_Token = [], EventPayload_TeamID = ''T1'',
     EventPayload_APIAppID = ''A1'', EventPayload_Event = example_event links,
     EventPayload_Type = type, EventPayload_EventID = ''Ev1'', EventPayload_EventTime = 0,
     EventPayload_Authorizations = [], EventPayload_IsExtSharedChannel = False,
     EventPayload_EventContext = [], EventPayload_Challenge = challenge\<rparr>"

text \<open>
  A server for the examples: it knows the dashboard \<open>abc123\<close>, renders every path, binds
  every body to \<open>example_share\<close> and to the given event payload, and every Slack call is
  answered. The stand-in for the JSON encoding keeps only the channel.
\<close>

definition example_server :: "EventPayload \<Rightarrow> unit HTTPServer" where
  "example_server payload = \<lparr>Cfg = example_Cfg,
     DashboardService_GetDashboard =
       (\<lambda>w uid. (if uid = ''abc123'' then Inr \<lparr>Dashboard_Title = ''Latency''\<rparr>
                  else Inl ''dashboard not found'', w)),
     RenderService_Render =
       (\<lambda>w opts. (Inr \<lparr>RenderResult_FilePath = ''/var/lib/grafana/png/x9.png''\<rparr>, w)),
     setting_HTTPScheme = ''http'', setting_HTTP2Scheme = ''h2'',
     setting_HTTPSScheme = ''https'',
     web_Bind_ShareRequest = (\<lambda>b. Inr example_share),
     web_Bind_EventPayload = (\<lambda>b. Inr payload),
     json_Marshal_PostMessageRequest = (\<lambda>p. Inr (PostMessageRequest_Channel p)),
     json_Marshal_UnfurlEventPayload = (\<lambda>p. Inr (UnfurlEventPayload_Channel p)),
     http_NewRequest_error = (\<lambda>m u. None),
     http_DefaultClient_Do =
       (\<lambda>w r. ((Some \<lparr>Body_ReadAll = (''ok'', None), Body_Close = None\<rparr>, None), w))\<rparr>"

definition example_state :: "unit state" where
  "example_state = \<lparr>world = (), outbound = [], logged = []\<rparr>"

definition example_request :: "string \<Rightarrow> ReqContext" where
  "example_request uid = \<lparr>Params_uid = uid, Req_Body = ''{}''\<rparr>"

text \<open>The example server with no network, and with a failing \<open>http.NewRequest\<close>.\<close>

definition do_fails :: "unit HTTPServer" where
  "do_fails = (example_server (example_payload [] [] []))
     \<lparr>http_DefaultClient_Do := (\<lambda>w r. ((None, Some ''dial tcp: connection refused''), w))\<rparr>"

definition construct_fails :: "unit HTTPServer" where
  "construct_fails = (example_server (example_payload [] [] []))
     \<lparr>http_NewRequest_error := (\<lambda>m u. Some ''net/http: invalid method'')\<rparr>"

definition two_links :: "Link list" where
  "two_links =
     [\<lparr>Link_URL = ''http://localhost:3000/d/abc123/latency'', Link_Domain = ''localhost''\<rparr>,
      \<lparr>Link_URL = ''http://localhost:3000/d/abc123/latency?viewPanel=2'',
       Link_Domain = ''localhost''\<rparr>]"

section \<open>The link extractor: proofs\<close>

lemma dashboard_segment_at_iff:
  "dashboard_segment_at s \<longleftrightarrow>
     (\<exists>uid slug. s = ''/d/'' @ uid @ ''/'' @ slug \<and> CHR ''/'' \<notin> set uid)"
proof
  assume "dashboard_segment_at s"
  then obtain t where s: "s = ''/d/'' @ t" and t: "CHR ''/'' \<in> set t"
    by (cases s rule: dashboard_segment_at.cases) auto
  from t obtain uid slug where "t = uid @ CHR ''/'' # slug" "CHR ''/'' \<notin> set uid"
    by (auto dest: split_list_first)
  with s show "\<exists>uid slug. s = ''/d/'' @ uid @ ''/'' @ slug \<and> CHR ''/'' \<notin> set uid"
    by auto
next
  assume "\<exists>uid slug. s = ''/d/'' @ uid @ ''/'' @ slug \<and> CHR ''/'' \<notin> set uid"
  then show "dashboard_segment_at s" by auto
qed

lemma contains_dashboard_segment_iff:
  "contains_dashboard_segment s \<longleftrightarrow> (\<exists>pre t. s = pre @ t \<and> dashboard_segment_at t)"
proof (induction s)
  case Nil
  then show ?case by simp
next
  case (Cons x xs)
  show ?case
  proof
    assume "contains_dashboard_segment (x # xs)"
    then consider "dashboard_segment_at (x # xs)" | "contains_dashboard_segment xs" by auto
    then show "\<exists>pre t. x # xs = pre @ t \<and> dashboard_segment_at t"
    proof cases
      case 1
      then show ?thesis by (intro exI[of _ "[]"] exI[of _ "x # xs"]) simp
    next
      case 2
      with Cons.IH obtain pre t where "xs = pre @ t" "dashboard_segment_at t" by auto
      then show ?thesis by (intro exI[of _ "x # pre"] exI[of _ t]) simp
    qed
  next
    assume "\<exists>pre t. x # xs = pre @ t \<and> dashboard_segment_at t"
    then obtain pre t where e: "x # xs = pre @ t" and t: "dashboard_segment_at t" by auto
    show "contains_dashboard_segment (x # xs)"
    proof (cases pre)
      case Nil
      with e t have "dashboard_segment_at (x # xs)" by simp
      then show ?thesis by simp
    next
      case (Cons y ys)
      with e have "xs = ys @ t" by simp
      with t Cons.IH show ?thesis by auto
    qed
  qed
qed

text \<open>What a greedy star leaves: suffixes of the input, the groups untouched.\<close>

lemma run_Star_suffix:
  "(t, cs') \<in> set (run (Star c) (s, cs)) \<Longrightarrow> cs' = cs \<and> (\<exists>p. s = p @ t)"
  by (induction s) (auto split: if_splits)

lemma run_Star_all:
  "\<forall>x \<in> set s. cls_ok c x \<Longrightarrow> \<exists>more. run (Star c) (s, cs) = ([], cs) # more"
  by (induction s) auto

lemma run_Star_AnyBut:
  "c \<notin> set u \<Longrightarrow>
     \<exists>more. run (Star (AnyBut c)) (u @ c # rest, cs) = (c # rest, cs) # more
        \<and> (\<forall>(t, cs') \<in> set more. \<exists>y ys. t = y # ys \<and> y \<noteq> c)"
  by (induction u) auto

lemma concat_map_head:
  "\<forall>x \<in> set xs. f x = [] \<Longrightarrow> concat (map f (y # xs)) = f y"
  by (induction xs) auto

lemma run_uid_tail:
  assumes "CHR ''/'' \<notin> set uid"
  shows "run uid_tail (uid @ CHR ''/'' # rest, cs) = run (Star Dot) (rest, (2, uid) # cs)"
proof -
  let ?s = "uid @ CHR ''/'' # rest"
  from run_Star_AnyBut[OF assms, of rest cs] obtain more where
    m: "run (Star (AnyBut CHR ''/'')) (?s, cs) = (CHR ''/'' # rest, cs) # more"
    and o: "\<forall>(t, cs') \<in> set more. \<exists>y ys. t = y # ys \<and> y \<noteq> CHR ''/''"
    by blast
  let ?cap = "\<lambda>(r, cs'). (r, (2, take (length ?s - length r) ?s) # cs')"
  let ?k = "run (Cat (Sym (Chr CHR ''/'')) (Star Dot))"
  have "\<forall>x \<in> set (map ?cap more). ?k x = []"
    using o by fastforce
  then have "concat (map ?k (map ?cap ((CHR ''/'' # rest, cs) # more))) = ?k (?cap (CHR ''/'' # rest, cs))"
    using concat_map_head[of "map ?cap more" ?k "?cap (CHR ''/'' # rest, cs)"] by simp
  then show ?thesis
    by (simp add: uid_tail_def m)
qed

lemma run_Cat_nonempty:
  "run (Cat a b) st \<noteq> [] \<Longrightarrow> \<exists>st' \<in> set (run a st). run b st' \<noteq> []"
  by auto

lemma run_Group_elem:
  "(r, cs') \<in> set (run (Group n x) (s, cs)) \<Longrightarrow> \<exists>cs0. (r, cs0) \<in> set (run x (s, cs))"
  by auto

lemma run_uid_tail_nonempty:
  assumes "run uid_tail (t, cs) \<noteq> []"
  shows "CHR ''/'' \<in> set t"
proof -
  from assms have "\<exists>st \<in> set (run (Group 2 (Star (AnyBut CHR ''/''))) (t, cs)).
      run (Cat (Sym (Chr CHR ''/'')) (Star Dot)) st \<noteq> []"
    unfolding uid_tail_def by (rule run_Cat_nonempty)
  then obtain r cs' where
    st: "(r, cs') \<in> set (run (Group 2 (Star (AnyBut CHR ''/''))) (t, cs))"
    and ne: "run (Cat (Sym (Chr CHR ''/'')) (Star Dot)) (r, cs') \<noteq> []"
    by force
  from run_Group_elem[OF st] obtain cs0 where
    "(r, cs0) \<in> set (run (Star (AnyBut CHR ''/'')) (t, cs))" by blast
  then obtain p where p: "t = p @ r" by (auto dest: run_Star_suffix)
  from ne have "\<exists>ys. r = CHR ''/'' # ys"
    by (cases r) (auto split: if_splits)
  with p show ?thesis by auto
qed

lemma dashboard_re_eq: "dashboard_re = Cat (Star Dot) segment_re"
  by (simp add: dashboard_re_def segment_re_def uid_tail_def)

lemma run_segment_re_nonempty:
  "run segment_re (t, cs) \<noteq> [] \<Longrightarrow> dashboard_segment_at t"
proof (cases t rule: dashboard_segment_at.cases)
  case (1 a b c t')
  assume ne: "run segment_re (t, cs) \<noteq> []"
  with 1 have abc: "a = CHR ''/''" "b = CHR ''d''" "c = CHR ''/''"
    by (auto simp: segment_re_def split: if_splits)
  with ne 1 have "run uid_tail (t', cs) \<noteq> []"
    by (auto simp: segment_re_def)
  then have "CHR ''/'' \<in> set t'" by (rule run_uid_tail_nonempty)
  with 1 abc show ?thesis by simp
qed (auto simp: segment_re_def split: if_splits)

lemma run_segment_re:
  assumes "CHR ''/'' \<notin> set uid" "newline \<notin> set slug"
  shows "\<exists>more. run segment_re (''/d/'' @ uid @ ''/'' @ slug, cs)
           = ([], (1, ''/d/'' @ uid @ ''/'' @ slug) # (2, uid) # cs) # more"
proof -
  from assms(2) have "\<forall>x \<in> set slug. cls_ok Dot x" by auto
  from run_Star_all[OF this, of "(2, uid) # cs"] obtain more where
    "run (Star Dot) (slug, (2, uid) # cs) = ([], (2, uid) # cs) # more" by blast
  with run_uid_tail[OF assms(1), of slug cs]
  have "run uid_tail (uid @ CHR ''/'' # slug, cs) = ([], (2, uid) # cs) # more" by simp
  then show ?thesis
    by (simp add: segment_re_def)
qed

lemma run_dashboard_re_nonempty:
  assumes "run dashboard_re (s, cs) \<noteq> []"
  shows "contains_dashboard_segment s"
proof -
  from assms have "\<exists>st \<in> set (run (Star Dot) (s, cs)). run segment_re st \<noteq> []"
    unfolding dashboard_re_eq by (rule run_Cat_nonempty)
  then obtain t cs' where el: "(t, cs') \<in> set (run (Star Dot) (s, cs))"
    and ne: "run segment_re (t, cs') \<noteq> []" by force
  from el obtain p where "s = p @ t" by (auto dest: run_Star_suffix)
  moreover from ne have "dashboard_segment_at t" by (rule run_segment_re_nonempty)
  ultimately show ?thesis by (auto simp: contains_dashboard_segment_iff)
qed

lemma leftmost_None:
  "\<not> contains_dashboard_segment s \<Longrightarrow> leftmost dashboard_re s = None"
proof (induction s)
  case Nil
  have "run dashboard_re ([], []) = []"
    using run_dashboard_re_nonempty[of "[]" "[]"] by auto
  then show ?case by (simp add: match_at_def)
next
  case (Cons x xs)
  from Cons.prems have "run dashboard_re (x # xs, []) = []"
    using run_dashboard_re_nonempty[of "x # xs" "[]"] by blast
  moreover from Cons.prems have "\<not> contains_dashboard_segment xs" by simp
  ultimately show ?case using Cons.IH by (simp add: match_at_def)
qed

lemma leftmost_Some: "match_at r s = Some m \<Longrightarrow> leftmost r s = Some m"
  by (cases s) auto

lemma run_dashboard_re_last:
  assumes uid: "CHR ''/'' \<notin> set uid" and slug: "newline \<notin> set slug"
    and last: "\<not> contains_dashboard_segment (''d/'' @ uid @ ''/'' @ slug)"
    and pre: "newline \<notin> set pre"
  shows "\<exists>more. run dashboard_re (pre @ ''/d/'' @ uid @ ''/'' @ slug, cs)
           = ([], (1, ''/d/'' @ uid @ ''/'' @ slug) # (2, uid) # cs) # more"
  using pre
proof (induction pre)
  case Nil
  let ?S = "''/d/'' @ uid @ ''/'' @ slug"
  let ?S' = "''d/'' @ uid @ ''/'' @ slug"
  have "\<forall>st \<in> set (run (Star Dot) (?S', cs)). run segment_re st = []"
  proof
    fix st assume st: "st \<in> set (run (Star Dot) (?S', cs))"
    obtain t cs' where [simp]: "st = (t, cs')" by (cases st)
    from st obtain p where p: "?S' = p @ t" by (auto dest: run_Star_suffix)
    show "run segment_re st = []"
    proof (rule ccontr)
      assume "run segment_re st \<noteq> []"
      then have "dashboard_segment_at t" by (auto dest: run_segment_re_nonempty)
      with p have "contains_dashboard_segment ?S'"
        unfolding contains_dashboard_segment_iff by blast
      with last show False by simp
    qed
  qed
  then have "concat (map (run segment_re) (run (Star Dot) (?S', cs))) = []"
    by simp
  then have "run dashboard_re (?S, cs) = run segment_re (?S, cs)"
    by (simp add: dashboard_re_eq newline_def)
  with run_segment_re[OF uid slug, of cs] show ?case by simp
next
  case (Cons x pre)
  then obtain more where
    "run dashboard_re (pre @ ''/d/'' @ uid @ ''/'' @ slug, cs)
       = ([], (1, ''/d/'' @ uid @ ''/'' @ slug) # (2, uid) # cs) # more" by auto
  moreover from Cons.prems have "cls_ok Dot x" by auto
  ultimately show ?case by (simp add: dashboard_re_eq)
qed

lemma NumSubexp_dashboard_re: "NumSubexp dashboard_re = 2"
  by (simp add: dashboard_re_def)

text \<open>
  Where the extractor does what is asked of it. A URL with no dashboard segment yields
  two empty strings. A URL \<open>pre @ /d/ @ uid @ / @ slug\<close> with one dashboard segment
  (no other starts after it), no slash in \<open>uid\<close> and no newline in \<open>pre\<close> or \<open>slug\<close>
  yields the text from \<open>/d/\<close> to the end as the render path and \<open>uid\<close> as the dashboard
  identifier.
\<close>

lemma extractURLInfo_last_segment:
  "(\<not> contains_dashboard_segment url \<longrightarrow> extractURLInfo url = ('''', '''')) \<and>
   (CHR ''/'' \<notin> set uid \<and> newline \<notin> set pre \<and> newline \<notin> set slug \<and>
    \<not> contains_dashboard_segment (''d/'' @ uid @ ''/'' @ slug) \<longrightarrow>
      extractURLInfo (pre @ ''/d/'' @ uid @ ''/'' @ slug) = (''/d/'' @ uid @ ''/'' @ slug, uid))"
proof (intro conjI impI)
  assume "\<not> contains_dashboard_segment url"
  then show "extractURLInfo url = ('''', '''')"
    by (simp add: extractURLInfo_def FindStringSubmatch_def leftmost_None)
next
  assume h: "CHR ''/'' \<notin> set uid \<and> newline \<notin> set pre \<and> newline \<notin> set slug \<and>
    \<not> contains_dashboard_segment (''d/'' @ uid @ ''/'' @ slug)"
  let ?url = "pre @ ''/d/'' @ uid @ ''/'' @ slug"
  let ?caps = "[(1, ''/d/'' @ uid @ ''/'' @ slug), (2, uid)]"
  from h obtain more where
    "run dashboard_re (?url, []) = ([], ?caps) # more"
    using run_dashboard_re_last[of uid slug pre "[]"] by blast
  then have "match_at dashboard_re ?url = Some (?url, ?caps)"
    by (simp add: match_at_def)
  then have "leftmost dashboard_re ?url = Some (?url, ?caps)"
    by (rule leftmost_Some)
  then show "extractURLInfo ?url = (''/d/'' @ uid @ ''/'' @ slug, uid)"
    by (simp add: extractURLInfo_def FindStringSubmatch_def NumSubexp_dashboard_re upt_rec)
qed

text \<open>The same at a dashboard URL and at a URL with no dashboard segment.\<close>

lemma extractURLInfo_last_segment_witness:
  "\<not> contains_dashboard_segment ''https://g.example.org/explore'' \<and>
   extractURLInfo ''https://g.example.org/explore'' = ('''', '''') \<and>
   CHR ''/'' \<notin> set ''abc123'' \<and> newline \<notin> set ''https://g.example.org'' \<and>
   newline \<notin> set ''my-dash?orgId=1'' \<and>
   \<not> contains_dashboard_segment (''d/'' @ ''abc123'' @ ''/'' @ ''my-dash?orgId=1'') \<and>
   extractURLInfo (''https://g.example.org'' @ ''/d/'' @ ''abc123'' @ ''/'' @ ''my-dash?orgId=1'')
     = (''/d/'' @ ''abc123'' @ ''/'' @ ''my-dash?orgId=1'', ''abc123'')"
  using extractURLInfo_last_segment[of "''https://g.example.org/explore''" "''abc123''"
      "''https://g.example.org''" "''my-dash?orgId=1''"]
  by (simp add: newline_def)

text \<open>
  Claim C1 at an input on which the code breaks it. The URL is a dashboard URL,
  \<open>/d/abc123/latency\<close>, whose query names another path, \<open>next=/d/zzz/x\<close>. The claim,
  and the comment of \<open>extractURLInfo\<close> (it returns the render path and the dashboard
  UID), ask for the path from \<open>/d/abc123\<close> to the end and for \<open>abc123\<close>. The leading
  \<open>.*\<close> of the pattern is greedy: the code returns the later segment and \<open>zzz\<close>.
\<close>

theorem extractURLInfo_later_segment:
  "extractURLInfo ''http://localhost:3000/d/abc123/latency?next=/d/zzz/x''
     = (''/d/zzz/x'', ''zzz'')
   \<and> extractURLInfo ''http://localhost:3000/d/abc123/latency?next=/d/zzz/x''
     \<noteq> (''/d/abc123/latency?next=/d/zzz/x'', ''abc123'')"
  by (simp add: extractURLInfo_def FindStringSubmatch_def dashboard_re_def match_at_def
      newline_def)

section \<open>The share handler: proofs\<close>

lemmas example_defs = example_server_def example_Cfg_def example_share_def
  example_state_def example_request_def example_payload_def example_event_def

lemmas handler_defs = ShareToSlack_def GetDashboard_def post_to_channel_def
  http_NewRequest_def client_Do_def log_line_def Header_Add_def postMessage_request_def

lemma post_to_channel_request_nil:
  assumes "json_Marshal_PostMessageRequest hs
      \<lparr>PostMessageRequest_Channel = ch, PostMessageRequest_Blocks = blocks\<rparr> = Inr b"
    and "http_NewRequest_error hs ''POST'' ''https://slack.com/api/chat.postMessage'' = Some e"
  shows "post_to_channel hs blocks ch s = (Panics NilPointerDereference, s)"
  using assms by (simp add: post_to_channel_def http_NewRequest_def)

lemma post_to_channel_do:
  assumes "json_Marshal_PostMessageRequest hs
      \<lparr>PostMessageRequest_Channel = ch, PostMessageRequest_Blocks = blocks\<rparr> = Inr b"
    and "http_NewRequest_error hs ''POST'' ''https://slack.com/api/chat.postMessage'' = None"
    and "http_DefaultClient_Do hs (world s) (postMessage_request hs b) = ((res, e), w')"
  shows "post_to_channel hs blocks ch s =
     (case res of
        None \<Rightarrow> (Panics NilPointerDereference,
                  s\<lparr>world := w', outbound := outbound s @ [postMessage_request hs b]\<rparr>)
      | Some r \<Rightarrow> (Done None,
                   log_line LvlInfo ''successfully sent unfurl event payload''
                     [''body'', fst (Body_ReadAll r)]
                     (s\<lparr>world := w', outbound := outbound s @ [postMessage_request hs b]\<rparr>)))"
  using assms
  by (simp add: post_to_channel_def http_NewRequest_def client_Do_def postMessage_request_def
      split: option.splits prod.splits)

lemma post_to_channel_continues:
  assumes "json_Marshal_PostMessageRequest hs
      \<lparr>PostMessageRequest_Channel = ch, PostMessageRequest_Blocks = blocks\<rparr> = Inr b"
    and "http_NewRequest_error hs ''POST'' ''https://slack.com/api/chat.postMessage'' = None"
    and "\<forall>w r. fst (fst (http_DefaultClient_Do hs w r)) \<noteq> None"
  shows "\<exists>s'. post_to_channel hs blocks ch s = (Done None, s')
           \<and> outbound s' = outbound s @ [postMessage_request hs b]"
proof -
  obtain res e w' where d:
    "http_DefaultClient_Do hs (world s) (postMessage_request hs b) = ((res, e), w')"
    by (metis prod.exhaust)
  with assms(3) have "res \<noteq> None" by (metis fst_conv)
  then obtain r where "res = Some r" by auto
  with post_to_channel_do[OF assms(1,2) d] show ?thesis
    by (simp add: log_line_def)
qed

lemma share_loop_all:
  assumes "\<forall>ch \<in> set chans. json_Marshal_PostMessageRequest hs
      \<lparr>PostMessageRequest_Channel = ch, PostMessageRequest_Blocks = blocks\<rparr> = Inr (enc ch)"
    and "http_NewRequest_error hs ''POST'' ''https://slack.com/api/chat.postMessage'' = None"
    and "\<forall>w r. fst (fst (http_DefaultClient_Do hs w r)) \<noteq> None"
  shows "\<exists>s'. share_loop hs blocks chans s = (Done None, s')
           \<and> outbound s' = outbound s @ map (\<lambda>ch. postMessage_request hs (enc ch)) chans"
  using assms(1)
proof (induction chans arbitrary: s)
  case Nil
  then show ?case by simp
next
  case (Cons ch chans)
  from Cons.prems have m: "json_Marshal_PostMessageRequest hs
      \<lparr>PostMessageRequest_Channel = ch, PostMessageRequest_Blocks = blocks\<rparr> = Inr (enc ch)"
    by simp
  from post_to_channel_continues[OF m assms(2,3), of s] obtain s1 where
    s1: "post_to_channel hs blocks ch s = (Done None, s1)"
        "outbound s1 = outbound s @ [postMessage_request hs (enc ch)]" by blast
  from Cons.prems have "\<forall>ch \<in> set chans. json_Marshal_PostMessageRequest hs
      \<lparr>PostMessageRequest_Channel = ch, PostMessageRequest_Blocks = blocks\<rparr> = Inr (enc ch)"
    by simp
  from Cons.IH[OF this, of s1] obtain s' where
    "share_loop hs blocks chans s1 = (Done None, s')"
    "outbound s' = outbound s1 @ map (\<lambda>ch. postMessage_request hs (enc ch)) chans" by blast
  with s1 show ?case by simp
qed

lemma post_to_channel_effect:
  "(fst (post_to_channel hs blocks ch s) \<noteq> Done None
      \<and> outbound (snd (post_to_channel hs blocks ch s)) = outbound s)
   \<or> outbound (snd (post_to_channel hs blocks ch s))
        = outbound s @ [channel_request hs blocks ch]"
  by (auto simp: post_to_channel_def channel_request_def http_NewRequest_def client_Do_def
      postMessage_request_def log_line_def Let_def
      split: sum.splits option.splits prod.splits)

lemma share_loop_prefix:
  "\<exists>k \<le> length chans.
     outbound (snd (share_loop hs blocks chans s))
       = outbound s @ map (channel_request hs blocks) (take k chans)
     \<and> (fst (share_loop hs blocks chans s) = Done None \<longrightarrow> k = length chans)"
proof (induction chans arbitrary: s)
  case Nil
  then show ?case by simp
next
  case (Cons ch chans)
  obtain r s1 where p: "post_to_channel hs blocks ch s = (r, s1)" by (cases "post_to_channel hs blocks ch s")
  show ?case
  proof (cases "r = Done None")
    case True
    with p post_to_channel_effect[of hs blocks ch s]
    have o1: "outbound s1 = outbound s @ [channel_request hs blocks ch]" by simp
    from Cons.IH[of s1] obtain k where k: "k \<le> length chans"
      "outbound (snd (share_loop hs blocks chans s1))
         = outbound s1 @ map (channel_request hs blocks) (take k chans)"
      "fst (share_loop hs blocks chans s1) = Done None \<longrightarrow> k = length chans" by blast
    have "share_loop hs blocks (ch # chans) s = share_loop hs blocks chans s1"
      using p True by simp
    with k o1 show ?thesis
      by (intro exI[of _ "Suc k"]) simp
  next
    case False
    then have stop: "share_loop hs blocks (ch # chans) s = (r, s1)"
      using p by (cases r) (auto split: option.splits)
    from p post_to_channel_effect[of hs blocks ch s]
    consider "outbound s1 = outbound s" | "outbound s1 = outbound s @ [channel_request hs blocks ch]"
      by auto
    then show ?thesis
    proof cases
      case 1
      with stop False show ?thesis by (intro exI[of _ 0]) simp
    next
      case 2
      with stop False show ?thesis by (intro exI[of _ 1]) simp
    qed
  qed
qed

lemma post_to_channel_returns:
  "post_to_channel hs blocks ch s = (Done (Some r), s') \<Longrightarrow>
     \<exists>e. r = response_Error 400 ''error parsing body'' e"
  by (auto simp: post_to_channel_def http_NewRequest_def Let_def
      split: sum.splits option.splits prod.splits)

lemma share_loop_returns:
  "share_loop hs blocks chans s = (Done (Some r), s') \<Longrightarrow>
     \<exists>e. r = response_Error 400 ''error parsing body'' e"
proof (induction chans arbitrary: s)
  case Nil
  then show ?case by simp
next
  case (Cons ch chans)
  obtain q s1 where p: "post_to_channel hs blocks ch s = (q, s1)"
    by (cases "post_to_channel hs blocks ch s")
  show ?case
  proof (cases "q = Done None")
    case True
    with p Cons.prems have "share_loop hs blocks chans s1 = (Done (Some r), s')" by simp
    then show ?thesis by (rule Cons.IH)
  next
    case False
    with p Cons.prems have "post_to_channel hs blocks ch s = (Done (Some r), s')"
      by (cases q) (auto split: option.splits)
    then show ?thesis by (rule post_to_channel_returns)
  qed
qed

text \<open>
  What does hold of the calls. Let the dashboard be found and the body bind to
  \<open>shareRequest\<close>, with channel identifiers \<open>chans\<close> and the block list \<open>blocks\<close> the
  handler builds. In every run the requests handed to the HTTP client are those of the
  first \<open>k\<close> channels, in order, and \<open>k\<close> is the number of channels whenever the handler
  returns 200; it does return 200, with one request per channel, if every call is
  answered with a response. The body of the request of a channel is the encoding of a
  \<open>PostMessageRequest\<close> with that channel and one and the same list of four blocks: the
  title with its link, the message, the image preview and the action button.
\<close>

lemma ShareToSlack_posts_to_every_channel:
  assumes fetch: "DashboardService_GetDashboard hs (world s) (Params_uid c) = (Inr dashboard, w1)"
    and bind: "web_Bind_ShareRequest hs (Req_Body c) = Inr shareRequest"
    and blocks: "blocks = share_blocks (share_dashboardLink hs shareRequest) dashboard shareRequest"
    and chans: "chans = ShareRequest_ChannelIds shareRequest"
  shows "((\<forall>ch \<in> set chans. \<exists>b. json_Marshal_PostMessageRequest hs
              \<lparr>PostMessageRequest_Channel = ch, PostMessageRequest_Blocks = blocks\<rparr> = Inr b)
          \<and> http_NewRequest_error hs ''POST'' ''https://slack.com/api/chat.postMessage'' = None
          \<and> (\<forall>w r. fst (fst (http_DefaultClient_Do hs w r)) \<noteq> None)
        \<longrightarrow> fst (ShareToSlack hs c s) = Done (response_JSON 200 NilBody)
          \<and> outbound (snd (ShareToSlack hs c s))
              = outbound s @ map (channel_request hs blocks) chans
          \<and> length (outbound (snd (ShareToSlack hs c s)))
              = length (outbound s) + length chans)
     \<and> (\<exists>k \<le> length chans.
          outbound (snd (ShareToSlack hs c s))
            = outbound s @ map (channel_request hs blocks) (take k chans)
          \<and> (fst (ShareToSlack hs c s) = Done (response_JSON 200 NilBody) \<longrightarrow> k = length chans))
     \<and> (\<forall>ch. Request_URL (channel_request hs blocks ch) = ''https://slack.com/api/chat.postMessage''
            \<and> Request_Body (channel_request hs blocks ch)
                = projr (json_Marshal_PostMessageRequest hs
                    \<lparr>PostMessageRequest_Channel = ch, PostMessageRequest_Blocks = blocks\<rparr>))
     \<and> map Block_Type blocks = [''section'', ''section'', ''image'', ''actions'']
     \<and> map Block_Text blocks
         = [Some \<lparr>Text_Type = ''mrkdwn'',
                  Text_Text = ''<'' @ share_dashboardLink hs shareRequest @ ''|*''
                                @ Dashboard_Title dashboard @ ''*>''\<rparr>,
            Some \<lparr>Text_Type = ''plain_text'', Text_Text = ShareRequest_Message shareRequest\<rparr>,
            None, None]
     \<and> map Block_ImageURL blocks = [[], [], ShareRequest_ImagePreviewUrl shareRequest, []]
     \<and> map (map (\<lambda>e. (Element_Type e, Element_URL e)) \<circ> Block_Elements) blocks
         = [[], [], [], [(''button'', share_dashboardLink hs shareRequest)]]"
proof -
  let ?s1 = "s\<lparr>world := w1\<rparr>"
  let ?R = "ShareToSlack hs c s"
  let ?L = "share_loop hs blocks chans ?s1"
  have R: "?R = (case ?L of
                   (Done None, s2) \<Rightarrow> (Done (response_JSON 200 NilBody), s2)
                 | (Done (Some r), s2) \<Rightarrow> (Done r, s2)
                 | (Panics p, s2) \<Rightarrow> (Panics p, s2))"
    using fetch bind blocks chans by (simp add: ShareToSlack_def GetDashboard_def Let_def)
  have snd_R: "snd ?R = snd ?L"
    unfolding R by (simp split: prod.splits outcome.splits option.splits)
  have fst_R: "fst ?R = Done (response_JSON 200 NilBody) \<Longrightarrow> fst ?L = Done None"
    unfolding R by (auto split: prod.splits outcome.splits option.splits dest: share_loop_returns)
  have happy: "fst ?R = Done (response_JSON 200 NilBody)
      \<and> outbound (snd ?R) = outbound s @ map (channel_request hs blocks) chans
      \<and> length (outbound (snd ?R)) = length (outbound s) + length chans"
    if m: "\<forall>ch \<in> set chans. \<exists>b. json_Marshal_PostMessageRequest hs
              \<lparr>PostMessageRequest_Channel = ch, PostMessageRequest_Blocks = blocks\<rparr> = Inr b"
      and n: "http_NewRequest_error hs ''POST'' ''https://slack.com/api/chat.postMessage'' = None"
      and a: "\<forall>w r. fst (fst (http_DefaultClient_Do hs w r)) \<noteq> None"
  proof -
    let ?enc = "\<lambda>ch. projr (json_Marshal_PostMessageRequest hs
        \<lparr>PostMessageRequest_Channel = ch, PostMessageRequest_Blocks = blocks\<rparr>)"
    from m have "\<forall>ch \<in> set chans. json_Marshal_PostMessageRequest hs
        \<lparr>PostMessageRequest_Channel = ch, PostMessageRequest_Blocks = blocks\<rparr> = Inr (?enc ch)"
      by force
    from share_loop_all[OF this n a, of ?s1] obtain s2 where
      loop: "?L = (Done None, s2)"
      and out: "outbound s2 = outbound ?s1 @ map (\<lambda>ch. postMessage_request hs (?enc ch)) chans"
      by blast
    have "map (\<lambda>ch. postMessage_request hs (?enc ch)) chans = map (channel_request hs blocks) chans"
      by (simp add: channel_request_def)
    with loop out show ?thesis unfolding R by simp
  qed
  from share_loop_prefix[of chans hs blocks ?s1] obtain k where
    k: "k \<le> length chans"
    "outbound (snd ?L) = outbound ?s1 @ map (channel_request hs blocks) (take k chans)"
    "fst ?L = Done None \<longrightarrow> k = length chans" by blast
  have general: "\<exists>k \<le> length chans.
          outbound (snd ?R) = outbound s @ map (channel_request hs blocks) (take k chans)
          \<and> (fst ?R = Done (response_JSON 200 NilBody) \<longrightarrow> k = length chans)"
    using k fst_R snd_R by (intro exI[of _ k]) auto
  have req: "\<forall>ch. Request_URL (channel_request hs blocks ch) = ''https://slack.com/api/chat.postMessage''
            \<and> Request_Body (channel_request hs blocks ch)
                = projr (json_Marshal_PostMessageRequest hs
                    \<lparr>PostMessageRequest_Channel = ch, PostMessageRequest_Blocks = blocks\<rparr>)"
    by (simp add: channel_request_def postMessage_request_def Header_Add_def)
  have layout:
    "map Block_Type blocks = [''section'', ''section'', ''image'', ''actions'']"
    "map Block_Text blocks
       = [Some \<lparr>Text_Type = ''mrkdwn'',
                Text_Text = ''<'' @ share_dashboardLink hs shareRequest @ ''|*''
                              @ Dashboard_Title dashboard @ ''*>''\<rparr>,
          Some \<lparr>Text_Type = ''plain_text'', Text_Text = ShareRequest_Message shareRequest\<rparr>,
          None, None]"
    "map Block_ImageURL blocks = [[], [], ShareRequest_ImagePreviewUrl shareRequest, []]"
    "map (map (\<lambda>e. (Element_Type e, Element_URL e)) \<circ> Block_Elements) blocks
       = [[], [], [], [(''button'', share_dashboardLink hs shareRequest)]]"
    unfolding blocks by (simp_all add: share_blocks_def Block_zero_def Element_zero_def)
  from happy have happy': "(\<forall>ch \<in> set chans. \<exists>b. json_Marshal_PostMessageRequest hs
              \<lparr>PostMessageRequest_Channel = ch, PostMessageRequest_Blocks = blocks\<rparr> = Inr b)
          \<and> http_NewRequest_error hs ''POST'' ''https://slack.com/api/chat.postMessage'' = None
          \<and> (\<forall>w r. fst (fst (http_DefaultClient_Do hs w r)) \<noteq> None)
        \<longrightarrow> fst ?R = Done (response_JSON 200 NilBody)
          \<and> outbound (snd ?R) = outbound s @ map (channel_request hs blocks) chans
          \<and> length (outbound (snd ?R)) = length (outbound s) + length chans"
    by blast
  show ?thesis
    by (intro conjI; (rule happy' general req layout))
qed

text \<open>
  Claim C3 at an input on which the code breaks it. The share request names three
  channels and Slack cannot be reached: the first call returns an error and no response.
  The claim asks for three attempted calls, whether or not they succeed. The code drops
  the error, reads \<open>res.Body\<close> on the nil response and panics: one call is attempted,
  the other two channels never are, and the handler returns nothing.
\<close>

theorem ShareToSlack_failed_call_panics:
  "web_Bind_ShareRequest do_fails (Req_Body (example_request ''abc123'')) = Inr example_share
   \<and> ShareRequest_ChannelIds example_share = [''C1'', ''C2'', ''C3'']
   \<and> fst (ShareToSlack do_fails (example_request ''abc123'') example_state)
       = Panics NilPointerDereference
   \<and> map Request_Body
        (outbound (snd (ShareToSlack do_fails (example_request ''abc123'') example_state)))
       = [''C1'']
   \<and> length (outbound (snd (ShareToSlack do_fails (example_request ''abc123'')
         example_state))) \<noteq> 3"
  by (simp add: do_fails_def example_defs handler_defs)

text \<open>
  Claim C8. When the dashboard fetch fails with \<open>e\<close>, \<open>ShareToSlack\<close> returns 400 with
  the message \<open>error parsing body\<close> (the label of a body that does not parse) and \<open>e\<close>,
  and hands no request to the HTTP client: no channel is attempted.
\<close>

theorem ShareToSlack_dashboard_fetch_fails:
  assumes "DashboardService_GetDashboard hs (world s) (Params_uid c) = (Inl e, w1)"
  shows "fst (ShareToSlack hs c s) = Done (response_Error 400 ''error parsing body'' e)
     \<and> outbound (snd (ShareToSlack hs c s)) = outbound s"
  using assms by (simp add: ShareToSlack_def GetDashboard_def log_line_def)

text \<open>Claim C8 on the example server, for a dashboard it does not know.\<close>

theorem ShareToSlack_dashboard_fetch_fails_witness:
  "fst (ShareToSlack (example_server (example_payload [] [] [])) (example_request ''nope'')
          example_state)
     = Done (response_Error 400 ''error parsing body'' ''dashboard not found'')
   \<and> outbound (snd (ShareToSlack (example_server (example_payload [] [] []))
         (example_request ''nope'') example_state)) = []"
  using ShareToSlack_dashboard_fetch_fails[of "example_server (example_payload [] [] [])"
      example_state "example_request ''nope''" "''dashboard not found''" "()"]
  by (simp add: example_defs)

text \<open>
  Claim C10. In the loop of \<open>ShareToSlack\<close>, once the request of a channel is marshalled:
  if \<open>http.NewRequest\<close> fails, the headers are added to a nil request and the loop
  panics before any call; if the HTTP call fails and returns no response, its error is
  discarded, \<open>res.Body\<close> is read on nil and the loop panics after that one call, the
  remaining channels unattempted; only when the call returns a response is the read of
  its body defined, and then the iteration goes on whatever the error beside it.
\<close>

theorem share_loop_nil_dereference:
  assumes marshal: "json_Marshal_PostMessageRequest hs
      \<lparr>PostMessageRequest_Channel = ch, PostMessageRequest_Blocks = blocks\<rparr> = Inr b"
  shows "(http_NewRequest_error hs ''POST'' ''https://slack.com/api/chat.postMessage'' = Some e \<longrightarrow>
            share_loop hs blocks (ch # rest) s = (Panics NilPointerDereference, s))
     \<and> (http_NewRequest_error hs ''POST'' ''https://slack.com/api/chat.postMessage'' = None \<and>
        http_DefaultClient_Do hs (world s) (postMessage_request hs b) = ((None, Some e), w') \<longrightarrow>
            share_loop hs blocks (ch # rest) s =
              (Panics NilPointerDereference,
               s\<lparr>world := w', outbound := outbound s @ [postMessage_request hs b]\<rparr>))
     \<and> (http_NewRequest_error hs ''POST'' ''https://slack.com/api/chat.postMessage'' = None \<and>
        http_DefaultClient_Do hs (world s) (postMessage_request hs b) = ((Some res, e'), w') \<longrightarrow>
            fst (post_to_channel hs blocks ch s) = Done None)"
proof (intro conjI impI)
  assume "http_NewRequest_error hs ''POST'' ''https://slack.com/api/chat.postMessage'' = Some e"
  from post_to_channel_request_nil[OF marshal this, of s]
  show "share_loop hs blocks (ch # rest) s = (Panics NilPointerDereference, s)" by simp
next
  assume "http_NewRequest_error hs ''POST'' ''https://slack.com/api/chat.postMessage'' = None \<and>
        http_DefaultClient_Do hs (world s) (postMessage_request hs b) = ((None, Some e), w')"
  then show "share_loop hs blocks (ch # rest) s =
              (Panics NilPointerDereference,
               s\<lparr>world := w', outbound := outbound s @ [postMessage_request hs b]\<rparr>)"
    using post_to_channel_do[OF marshal, of s None "Some e" w'] by simp
next
  assume "http_NewRequest_error hs ''POST'' ''https://slack.com/api/chat.postMessage'' = None \<and>
        http_DefaultClient_Do hs (world s) (postMessage_request hs b) = ((Some res, e'), w')"
  then show "fst (post_to_channel hs blocks ch s) = Done None"
    using post_to_channel_do[OF marshal, of s "Some res" e' w'] by simp
qed

text \<open>
  Claim C10 on the example server: with a failing \<open>http.NewRequest\<close>, with no network,
  and as it is.
\<close>

theorem share_loop_nil_dereference_witness:
  "share_loop construct_fails [] [''C1'', ''C2'', ''C3''] example_state
     = (Panics NilPointerDereference, example_state)
   \<and> fst (share_loop do_fails [] [''C1'', ''C2'', ''C3''] example_state)
     = Panics NilPointerDereference
   \<and> map Request_Body (outbound (snd (share_loop do_fails [] [''C1'', ''C2'', ''C3'']
        example_state))) = [''C1'']
   \<and> fst (post_to_channel (example_server (example_payload [] [] [])) [] ''C1'' example_state)
     = Done None"
  using share_loop_nil_dereference[of construct_fails "''C1''" "[]" "''C1''"
      "''net/http: invalid method''" "[''C2'', ''C3'']" example_state]
    share_loop_nil_dereference[of do_fails "''C1''" "[]" "''C1''"
      "''dial tcp: connection refused''" "[''C2'', ''C3'']" example_state "()"]
    share_loop_nil_dereference[of "example_server (example_payload [] [] [])" "''C1''" "[]"
      "''C1''" _ _ example_state "()" "\<lparr>Body_ReadAll = (''ok'', None), Body_Close = None\<rparr>" None]
  by (simp add: construct_fails_def do_fails_def example_defs postMessage_request_def
      Header_Add_def)


section \<open>The event dispatcher and the unfurl path: proofs\<close>

text \<open>
  Claim C5. For every decoded payload of type \<open>url_verification\<close> the dispatcher returns
  status 200 with a body whose one field, the challenge, is the payload's challenge
  unchanged; the state is untouched.
\<close>

theorem AcknowledgeSlackEvent_url_verification:
  assumes "web_Bind_EventPayload hs (Req_Body c) = Inr eventPayload"
    and "EventPayload_Type eventPayload = ''url_verification''"
  shows "AcknowledgeSlackEvent hs c s =
     (Done (response_JSON 200
        (AckBody \<lparr>EventChallengeAck_Challenge = EventPayload_Challenge eventPayload\<rparr>)), s)"
  using assms by (simp add: AcknowledgeSlackEvent_def)

text \<open>Claim C5 for the challenge \<open>abc123\<close>.\<close>

theorem AcknowledgeSlackEvent_url_verification_witness:
  "AcknowledgeSlackEvent (example_server (example_payload ''url_verification'' ''abc123'' []))
     (example_request []) example_state
   = (Done (response_JSON 200 (AckBody \<lparr>EventChallengeAck_Challenge = ''abc123''\<rparr>)),
      example_state)"
  using AcknowledgeSlackEvent_url_verification[of
      "example_server (example_payload ''url_verification'' ''abc123'' [])"
      "example_request []" "example_payload ''url_verification'' ''abc123'' []" example_state]
  by (simp add: example_defs)


lemma sendUnfurlEvent_panic:
  "sendUnfurlEvent hs ev imagePath title s = (Panics p, s') \<Longrightarrow> p = NilPointerDereference"
  by (auto simp: sendUnfurlEvent_def Let_def
      split: sum.splits prod.splits option.splits)

text \<open>
  Claim C9. For an \<open>event_callback\<close> that the dispatcher classifies as a qualifying
  link-shared event, the handler panics with index 0 out of range for length 0 exactly
  when the event carries no link: neither the dispatcher nor the unfurl path checks the
  list before \<open>Links[0]\<close> is read, so the access is in bounds only under the
  precondition that the list is not empty.
\<close>

theorem AcknowledgeSlackEvent_links_unguarded:
  assumes "web_Bind_EventPayload hs (Req_Body c) = Inr eventPayload"
    and "EventPayload_Type eventPayload = ''event_callback''"
    and "Event_Type (EventPayload_Event eventPayload) = ''link_shared''"
    and "Event_Source (EventPayload_Event eventPayload) = ''conversations_history''"
  shows "fst (AcknowledgeSlackEvent hs c s) = Panics (IndexOutOfRange 0 0)
     \<longleftrightarrow> Event_Links (EventPayload_Event eventPayload) = []"
proof (cases "Event_Links (EventPayload_Event eventPayload)")
  case Nil
  with assms show ?thesis
    by (simp add: AcknowledgeSlackEvent_def handleLinkSharedEvent_def)
next
  case (Cons link0 others)
  have "fst (handleLinkSharedEvent hs eventPayload s) \<noteq> Panics (IndexOutOfRange 0 0)"
    using Cons
    by (auto simp: handleLinkSharedEvent_def Let_def dest: sendUnfurlEvent_panic
        split: sum.splits prod.splits option.splits outcome.splits)
  with assms Cons show ?thesis
    by (auto simp: AcknowledgeSlackEvent_def split: prod.splits outcome.splits)
qed

text \<open>Claim C9 for a qualifying event with an empty list of links.\<close>

theorem AcknowledgeSlackEvent_links_unguarded_witness:
  "fst (AcknowledgeSlackEvent (example_server (example_payload ''event_callback'' [] []))
          (example_request []) example_state) = Panics (IndexOutOfRange 0 0)
   \<and> Event_Links (EventPayload_Event (example_payload ''event_callback'' [] [])) = []"
  using AcknowledgeSlackEvent_links_unguarded[of
      "example_server (example_payload ''event_callback'' [] [])"
      "example_request []" "example_payload ''event_callback'' [] []" example_state]
  by (simp add: example_defs)


text \<open>
  Claim C4 at the input on which the code breaks it. The payload is an \<open>event_callback\<close>
  whose event is \<open>link_shared\<close> from \<open>conversations_history\<close> with no links. The claim
  promises an empty 200 response; the deferred orchestrator panics on \<open>Links[0]\<close> and
  the dispatcher returns no response at all.
\<close>

theorem AcknowledgeSlackEvent_empty_links_panics:
  "AcknowledgeSlackEvent (example_server (example_payload ''event_callback'' [] []))
     (example_request []) example_state
     = (Panics (IndexOutOfRange 0 0), example_state)
   \<and> fst (AcknowledgeSlackEvent (example_server (example_payload ''event_callback'' [] []))
          (example_request []) example_state) \<noteq> Done (response_Empty 200)"
  by (simp add: AcknowledgeSlackEvent_def handleLinkSharedEvent_def example_defs)

text \<open>
  Claim C6 at the input on which the code breaks it. On a qualifying event with no links
  the orchestrator does not swallow the failure of its first step: the index panic
  leaves \<open>handleLinkSharedEvent\<close> and reaches its caller.
\<close>

theorem handleLinkSharedEvent_empty_links_panics:
  "handleLinkSharedEvent (example_server (example_payload ''event_callback'' [] []))
     (example_payload ''event_callback'' [] []) example_state
     = (Panics (IndexOutOfRange 0 0), example_state)"
  by (simp add: handleLinkSharedEvent_def example_defs)

text \<open>
  What does hold when the event has a link. The orchestrator makes no Slack call when the
  render path is empty, the dashboard fetch fails or rendering fails; it returns, whatever
  fails, unless \<open>http.NewRequest\<close> fails or the HTTP client returns neither a response
  nor an error; and the dispatcher then answers with an empty 200, and with 400 to every
  payload that is neither a verification nor a qualifying event.
\<close>

lemma sendUnfurlEvent_panics_only:
  assumes "sendUnfurlEvent hs ev imagePath title s = (Panics p, s')"
  shows "http_NewRequest_error hs ''POST'' ''https://slack.com/api/chat.unfurl'' \<noteq> None
     \<or> (\<exists>w r w'. http_DefaultClient_Do hs w r = ((None, None), w'))"
  using assms
  by (auto simp: sendUnfurlEvent_def Let_def http_NewRequest_def client_Do_def
      split: sum.splits prod.splits option.splits)

lemma GetDashboard_outbound: "outbound (snd (GetDashboard hs uid s)) = outbound s"
  by (simp add: GetDashboard_def split: prod.splits)

lemma renderDashboard_outbound: "outbound (snd (renderDashboard hs p s)) = outbound s"
  by (simp add: renderDashboard_def Let_def split: prod.splits)

lemma handleLinkSharedEvent_aborts:
  assumes "Event_Links (EventPayload_Event ev) = link0 # others"
    and "extractURLInfo (Link_URL link0) = (renderPath, uid)"
    and "renderPath = []
       \<or> (\<exists>e s1. GetDashboard hs uid s = (Inl e, s1))
       \<or> (\<exists>d s1 e s2. GetDashboard hs uid s = (Inr d, s1)
             \<and> renderDashboard hs renderPath s1 = (Inl e, s2))"
  shows "fst (handleLinkSharedEvent hs ev s) = Done ()
     \<and> outbound (snd (handleLinkSharedEvent hs ev s)) = outbound s"
  using assms(3)
proof (elim disjE exE conjE)
  assume "renderPath = []"
  with assms(1,2) show ?thesis
    by (simp add: handleLinkSharedEvent_def log_line_def)
next
  fix e s1 assume fetch: "GetDashboard hs uid s = (Inl e, s1)"
  then have "outbound s1 = outbound s"
    using GetDashboard_outbound[of hs uid s] by simp
  with assms(1,2) fetch show ?thesis
    by (simp add: handleLinkSharedEvent_def log_line_def)
next
  fix d s1 e s2
  assume fetch: "GetDashboard hs uid s = (Inr d, s1)"
    and render: "renderDashboard hs renderPath s1 = (Inl e, s2)"
  from fetch have "outbound s1 = outbound s"
    using GetDashboard_outbound[of hs uid s] by simp
  moreover from render have "outbound s2 = outbound s1"
    using renderDashboard_outbound[of hs renderPath s1] by simp
  ultimately show ?thesis using assms(1,2) fetch render
    by (simp add: handleLinkSharedEvent_def log_line_def)
qed

lemma handleLinkSharedEvent_swallows:
  assumes "Event_Links (EventPayload_Event ev) \<noteq> []"
    and "http_NewRequest_error hs ''POST'' ''https://slack.com/api/chat.unfurl'' = None"
    and "\<forall>w r. fst (http_DefaultClient_Do hs w r) \<noteq> (None, None)"
  shows "fst (handleLinkSharedEvent hs ev s) = Done ()"
proof -
  from assms(1) obtain link0 others where
    links: "Event_Links (EventPayload_Event ev) = link0 # others"
    by (cases "Event_Links (EventPayload_Event ev)") auto
  have no_panic: "sendUnfurlEvent hs ev imagePath title s0 \<noteq> (Panics p, s')"
    for imagePath title s0 p s'
  proof
    assume "sendUnfurlEvent hs ev imagePath title s0 = (Panics p, s')"
    from sendUnfurlEvent_panics_only[OF this] assms(2) obtain w r w' where
      "http_DefaultClient_Do hs w r = ((None, None), w')" by auto
    with assms(3) show False by (metis fst_conv)
  qed
  show ?thesis
    using links no_panic
    by (auto simp: handleLinkSharedEvent_def Let_def
        split: sum.splits prod.splits option.splits outcome.splits)
qed

lemma AcknowledgeSlackEvent_unhandled:
  assumes "web_Bind_EventPayload hs (Req_Body c) = Inr eventPayload"
    and "EventPayload_Type eventPayload \<noteq> ''url_verification''"
    and "\<not> (EventPayload_Type eventPayload = ''event_callback''
          \<and> Event_Type (EventPayload_Event eventPayload) = ''link_shared''
          \<and> Event_Source (EventPayload_Event eventPayload) = ''conversations_history'')"
  shows "AcknowledgeSlackEvent hs c s =
     (Done (response_Error 400 ''not handling this event type''
        ''not handling this event type''), s)"
  using assms by (auto simp: AcknowledgeSlackEvent_def)

lemma AcknowledgeSlackEvent_qualifying:
  assumes "web_Bind_EventPayload hs (Req_Body c) = Inr eventPayload"
    and "EventPayload_Type eventPayload = ''event_callback''"
    and "Event_Type (EventPayload_Event eventPayload) = ''link_shared''"
    and "Event_Source (EventPayload_Event eventPayload) = ''conversations_history''"
    and "Event_Links (EventPayload_Event eventPayload) \<noteq> []"
    and "http_NewRequest_error hs ''POST'' ''https://slack.com/api/chat.unfurl'' = None"
    and "\<forall>w r. fst (http_DefaultClient_Do hs w r) \<noteq> (None, None)"
  shows "fst (AcknowledgeSlackEvent hs c s) = Done (response_Empty 200)"
  using assms(1-4) handleLinkSharedEvent_swallows[OF assms(5-7), of s]
  by (auto simp: AcknowledgeSlackEvent_def split: prod.splits outcome.splits)


lemma foldl_unfurls_dom:
  "dom (foldl (\<lambda>unfurls link. unfurls(Link_URL link \<mapsto> f link)) m links)
     = dom m \<union> Link_URL ` set links"
  by (induction links arbitrary: m) auto

lemma foldl_unfurls_lookup:
  assumes "\<And>l l'. Link_URL l = Link_URL l' \<Longrightarrow> f l = f l'"
    and "l \<in> set links"
  shows "foldl (\<lambda>unfurls link. unfurls(Link_URL link \<mapsto> f link)) m links (Link_URL l)
           = Some (f l)"
  using assms(2)
proof (induction links arbitrary: m rule: rev_induct)
  case Nil
  then show ?case by simp
next
  case (snoc x xs)
  show ?case
  proof (cases "Link_URL x = Link_URL l")
    case True
    then have "f x = f l" by (rule assms(1))
    with True show ?thesis by simp
  next
    case False
    with snoc.prems have "l \<in> set xs" by auto
    with snoc.IH False show ?thesis by simp
  qed
qed

lemma sendUnfurlEvent_outbound:
  "outbound (snd (sendUnfurlEvent hs ev imagePath title s)) = outbound s
   \<or> (\<exists>b. json_Marshal_UnfurlEventPayload hs (unfurl_payload hs ev imagePath title) = Inr b
          \<and> outbound (snd (sendUnfurlEvent hs ev imagePath title s))
              = outbound s @ [unfurl_request hs b])"
  by (auto simp: sendUnfurlEvent_def Let_def http_NewRequest_def client_Do_def log_line_def
      close_body_def unfurl_request_def
      split: sum.splits prod.splits option.splits)

text \<open>
  Claim C7. \<open>sendUnfurlEvent\<close> hands the HTTP client nothing, or one \<open>chat.unfurl\<close>
  request whose body is the encoding of the payload it built. The \<open>Unfurls\<close> mapping of
  that payload has exactly the URLs of the event's links as its keys (as many entries as
  links when the URLs differ), and the entry of a link is the layout of four blocks in
  this order: a header with the dashboard title, a text section, an image block with the
  image URL, and an action block whose button has the link's URL.
\<close>

theorem sendUnfurlEvent_unfurls:
  "(outbound (snd (sendUnfurlEvent hs ev imagePath title s)) = outbound s
    \<or> (\<exists>b. json_Marshal_UnfurlEventPayload hs (unfurl_payload hs ev imagePath title) = Inr b
          \<and> outbound (snd (sendUnfurlEvent hs ev imagePath title s))
              = outbound s @ [unfurl_request hs b]))
   \<and> dom (UnfurlEventPayload_Unfurls (unfurl_payload hs ev imagePath title))
       = Link_URL ` set (Event_Links (EventPayload_Event ev))
   \<and> (distinct (map Link_URL (Event_Links (EventPayload_Event ev))) \<longrightarrow>
        card (dom (UnfurlEventPayload_Unfurls (unfurl_payload hs ev imagePath title)))
          = length (Event_Links (EventPayload_Event ev)))
   \<and> (\<forall>l \<in> set (Event_Links (EventPayload_Event ev)).
        UnfurlEventPayload_Unfurls (unfurl_payload hs ev imagePath title) (Link_URL l)
          = Some \<lparr>Unfurl_Blocks =
                    unfurl_blocks title (getImageURL hs (filepath_Base imagePath)) l\<rparr>
        \<and> map Block_Type (unfurl_blocks title (getImageURL hs (filepath_Base imagePath)) l)
            = [''header'', ''section'', ''image'', ''actions'']
        \<and> map Block_Text (unfurl_blocks title (getImageURL hs (filepath_Base imagePath)) l)
            = [Some \<lparr>Text_Type = ''plain_text'', Text_Text = title\<rparr>,
               Some \<lparr>Text_Type = ''plain_text'',
                     Text_Text = ''Here is the dashboard that I wanted to show you''\<rparr>,
               None, None]
        \<and> map Block_ImageURL (unfurl_blocks title (getImageURL hs (filepath_Base imagePath)) l)
            = [[], [], getImageURL hs (filepath_Base imagePath), []]
        \<and> map (map (\<lambda>e. (Element_Type e, Element_URL e)) \<circ> Block_Elements)
              (unfurl_blocks title (getImageURL hs (filepath_Base imagePath)) l)
            = [[], [], [], [(''button'', Link_URL l)]])"
proof -
  let ?links = "Event_Links (EventPayload_Event ev)"
  let ?img = "getImageURL hs (filepath_Base imagePath)"
  let ?f = "\<lambda>link. \<lparr>Unfurl_Blocks = unfurl_blocks title ?img link\<rparr>"
  let ?U = "UnfurlEventPayload_Unfurls (unfurl_payload hs ev imagePath title)"
  have U: "?U = foldl (\<lambda>unfurls link. unfurls(Link_URL link \<mapsto> ?f link)) Map.empty ?links"
    by (simp add: unfurl_payload_def Let_def)
  have d: "dom ?U = Link_URL ` set ?links"
    unfolding U by (simp add: foldl_unfurls_dom)
  have c: "distinct (map Link_URL ?links) \<longrightarrow> card (dom ?U) = length ?links"
  proof
    assume "distinct (map Link_URL ?links)"
    then have "card (set (map Link_URL ?links)) = length (map Link_URL ?links)"
      by (rule distinct_card)
    with d show "card (dom ?U) = length ?links" by simp
  qed
  have l: "?U (Link_URL l) = Some (?f l)" if "l \<in> set ?links" for l
    unfolding U
    by (rule foldl_unfurls_lookup[where f = ?f, OF _ that]) (simp add: unfurl_blocks_def)
  have t1: "map Block_Type (unfurl_blocks title ?img l)
            = [''header'', ''section'', ''image'', ''actions'']" for l
    by (simp add: unfurl_blocks_def Block_zero_def)
  have t2: "map Block_Text (unfurl_blocks title ?img l)
            = [Some \<lparr>Text_Type = ''plain_text'', Text_Text = title\<rparr>,
               Some \<lparr>Text_Type = ''plain_text'',
                     Text_Text = ''Here is the dashboard that I wanted to show you''\<rparr>,
               None, None]" for l
    by (simp add: unfurl_blocks_def Block_zero_def)
  have t3: "map Block_ImageURL (unfurl_blocks title ?img l) = [[], [], ?img, []]" for l
    by (simp add: unfurl_blocks_def Block_zero_def)
  have t4: "map (map (\<lambda>e. (Element_Type e, Element_URL e)) \<circ> Block_Elements)
              (unfurl_blocks title ?img l)
            = [[], [], [], [(''button'', Link_URL l)]]" for l
    by (simp add: unfurl_blocks_def Block_zero_def Element_zero_def)
  note o = sendUnfurlEvent_outbound[of hs ev imagePath title s]
  show ?thesis
    by (intro conjI ballI; (rule o d c t1 t2 t3 t4 | (rule l, assumption)))
qed

text \<open>Claim C7 for an event with two links.\<close>

theorem sendUnfurlEvent_unfurls_witness:
  "distinct (map Link_URL two_links)
   \<and> card (dom (UnfurlEventPayload_Unfurls
        (unfurl_payload (example_server (example_payload ''event_callback'' [] two_links))
           (example_payload ''event_callback'' [] two_links)
           ''/var/lib/grafana/png/x9.png'' ''Latency''))) = 2
   \<and> map_option (map Block_Type \<circ> Unfurl_Blocks)
       (UnfurlEventPayload_Unfurls
          (unfurl_payload (example_server (example_payload ''event_callback'' [] two_links))
             (example_payload ''event_callback'' [] two_links)
             ''/var/lib/grafana/png/x9.png'' ''Latency'')
          ''http://localhost:3000/d/abc123/latency'')
       = Some [''header'', ''section'', ''image'', ''actions'']
   \<and> map Request_URL (outbound (snd
        (sendUnfurlEvent (example_server (example_payload ''event_callback'' [] two_links))
           (example_payload ''event_callback'' [] two_links)
           ''/var/lib/grafana/png/x9.png'' ''Latency'' example_state)))
       = [''https://slack.com/api/chat.unfurl'']"
  using sendUnfurlEvent_unfurls[of
      "example_server (example_payload ''event_callback'' [] two_links)"
      "example_payload ''event_callback'' [] two_links"
      "''/var/lib/grafana/png/x9.png''" "''Latency''" example_state]
  by (simp add: two_links_def example_defs unfurl_request_def Header_Add_def
      sendUnfurlEvent_def http_NewRequest_def client_Do_def log_line_def close_body_def
      Let_def unfurl_payload_def unfurl_blocks_def Block_zero_def)

end
